theory Spec2Isabelle
  imports Complex_Main
begin

section \<open>JavaScript values\<close>

text \<open>
  The route handler works on values produced by \<^verbatim>\<open>JSON.parse\<close> (through
  \<^verbatim>\<open>response.json()\<close> and \<^verbatim>\<open>request.json()\<close>) and on what property access yields on
  them. A number \<open>JNum r t\<close> is its mathematical value \<open>r\<close> (\<open>0\<close> and \<open>-0\<close> coincide; \<open>NaN\<close>
  never comes out of JSON) together with its \<^verbatim>\<open>Number.prototype.toString\<close> text \<open>t\<close>, which
  for a safe integer is \<open>showInt\<close> of it; the text of other doubles (shortest round-trip
  digits) is carried, not computed. A literal too large for a double parses to an infinity
  (\<open>JInfinity True\<close> the negative one). A string is a sequence
  of code units in the range \<open>0..255\<close> (Latin-1), which covers hexadecimal addresses and
  quantities. An object is the list of its own properties, the first binding of a key being
  the property's value.
\<close>

datatype jsval =
    JUndefined
  | JNull
  | JBool bool
  | JNum rat string
  | JInfinity bool
  | JStr string
  | JArr "jsval list"
  | JObj "(string \<times> jsval) list"

text \<open>What a \<^verbatim>\<open>throw\<close> carries; \<open>Thrown m\<close> is \<^verbatim>\<open>new Error(m)\<close>.\<close>

datatype jsError =
    TypeError
  | SyntaxError
  | RangeError
  | FetchError
  | JsonParseError
  | CompletionError
  | Thrown string

text \<open>Truthiness, as \<^verbatim>\<open>!x\<close> and \<^verbatim>\<open>x || y\<close> test it.\<close>

fun truthy :: "jsval \<Rightarrow> bool" where
  "truthy JUndefined = False"
| "truthy JNull = False"
| "truthy (JBool b) = b"
| "truthy (JNum r t) = (r \<noteq> 0)"
| "truthy (JInfinity neg) = True"
| "truthy (JStr s) = (s \<noteq> [])"
| "truthy (JArr xs) = True"
| "truthy (JObj kvs) = True"

text \<open>\<^verbatim>\<open>a || b\<close>.\<close>

definition orElse :: "jsval \<Rightarrow> jsval \<Rightarrow> jsval" where
  "orElse a b = (if truthy a then a else b)"

text \<open>
  Property read \<^verbatim>\<open>v.k\<close>: a \<^verbatim>\<open>TypeError\<close> on \<^verbatim>\<open>null\<close> and \<^verbatim>\<open>undefined\<close>, the own property
  of an object, \<^verbatim>\<open>undefined\<close> otherwise. The keys the handler reads (\<^verbatim>\<open>result\<close>,
  \<^verbatim>\<open>status\<close>, \<^verbatim>\<open>to\<close>, \<^verbatim>\<open>value\<close>, \<^verbatim>\<open>messages\<close>, \<^verbatim>\<open>model\<close>, \<^verbatim>\<open>role\<close>, \<^verbatim>\<open>content\<close>) name no
  property of the built-in prototypes, so primitives and arrays have none of them.
\<close>

fun getProp :: "jsval \<Rightarrow> string \<Rightarrow> jsError + jsval" where
  "getProp JUndefined k = Inl TypeError"
| "getProp JNull k = Inl TypeError"
| "getProp (JObj kvs) k = Inr (case map_of kvs k of None \<Rightarrow> JUndefined | Some v \<Rightarrow> v)"
| "getProp v k = Inr JUndefined"

subsection \<open>Strings\<close>

text \<open>
  \<^verbatim>\<open>String.prototype.toLowerCase\<close> on Latin-1 code units: the capitals \<open>A..Z\<close>,
  \<open>0xC0..0xD6\<close> and \<open>0xD8..0xDE\<close> move up by 32, every other unit stays.
\<close>

definition isUpperUnit :: "char \<Rightarrow> bool" where
  "isUpperUnit c =
     (let n = (of_char c :: nat)
      in (65 \<le> n \<and> n \<le> 90) \<or> (192 \<le> n \<and> n \<le> 222 \<and> n \<noteq> 215))"

definition lowerUnit :: "char \<Rightarrow> char" where
  "lowerUnit c = (if isUpperUnit c then char_of ((of_char c :: nat) + 32) else c)"

definition toLowerCase :: "string \<Rightarrow> string" where
  "toLowerCase s = map lowerUnit s"

text \<open>Decimal rendering of an integer: \<^verbatim>\<open>BigInt.prototype.toString\<close>, and
  \<^verbatim>\<open>Number.prototype.toString\<close> on an integer below \<open>10^21\<close> in magnitude.\<close>

definition digitChar :: "nat \<Rightarrow> char" where
  "digitChar d = ''0123456789'' ! d"

fun showNat :: "nat \<Rightarrow> string" where
  "showNat n = (if n < 10 then [digitChar n] else showNat (n div 10) @ [digitChar (n mod 10)])"

declare showNat.simps [simp del]

definition showInt :: "int \<Rightarrow> string" where
  "showInt i = (if i < 0 then CHR ''-'' # showNat (nat (- i)) else showNat (nat i))"

subsection \<open>Integer literals\<close>

text \<open>
  \<^verbatim>\<open>StringToBigInt\<close>: white space is trimmed; the empty text is zero; a decimal literal
  may carry a sign; \<^verbatim>\<open>0x\<close>, \<^verbatim>\<open>0o\<close> and \<^verbatim>\<open>0b\<close> literals carry none; anything else is
  no literal (\<open>None\<close>, a \<^verbatim>\<open>SyntaxError\<close> in \<^verbatim>\<open>BigInt\<close>).
\<close>

definition isWhiteSpace :: "char \<Rightarrow> bool" where
  "isWhiteSpace c = ((of_char c :: nat) \<in> {9, 10, 11, 12, 13, 32, 160})"

definition trimJS :: "string \<Rightarrow> string" where
  "trimJS s = rev (dropWhile isWhiteSpace (rev (dropWhile isWhiteSpace s)))"

definition digitVal :: "char \<Rightarrow> nat option" where
  "digitVal c =
     (let n = (of_char c :: nat)
      in if 48 \<le> n \<and> n \<le> 57 then Some (n - 48)
         else if 97 \<le> n \<and> n \<le> 102 then Some (n - 87)
         else if 65 \<le> n \<and> n \<le> 70 then Some (n - 55)
         else None)"

fun parseDigitsFrom :: "nat \<Rightarrow> nat \<Rightarrow> string \<Rightarrow> nat option" where
  "parseDigitsFrom base acc [] = Some acc"
| "parseDigitsFrom base acc (c # cs) =
     (case digitVal c of
        None \<Rightarrow> None
      | Some d \<Rightarrow> if d < base then parseDigitsFrom base (acc * base + d) cs else None)"

definition parseDigits :: "nat \<Rightarrow> string \<Rightarrow> nat option" where
  "parseDigits base cs = (if cs = [] then None else parseDigitsFrom base 0 cs)"

definition StringToBigInt :: "string \<Rightarrow> int option" where
  "StringToBigInt s =
     (let t = trimJS s
      in if t = [] then Some 0
         else if take 2 t = ''0x'' \<or> take 2 t = ''0X'' then map_option int (parseDigits 16 (drop 2 t))
         else if take 2 t = ''0o'' \<or> take 2 t = ''0O'' then map_option int (parseDigits 8 (drop 2 t))
         else if take 2 t = ''0b'' \<or> take 2 t = ''0B'' then map_option int (parseDigits 2 (drop 2 t))
         else if hd t = CHR ''+'' then map_option int (parseDigits 10 (tl t))
         else if hd t = CHR ''-'' then map_option (\<lambda>n. - int n) (parseDigits 10 (tl t))
         else map_option int (parseDigits 10 t))"

subsection \<open>Coercions\<close>

text \<open>
  \<^verbatim>\<open>ToString\<close>. An array renders through \<^verbatim>\<open>join(',')\<close>, where \<^verbatim>\<open>null\<close> and \<^verbatim>\<open>undefined\<close>
  elements are empty. A parsed object has no callable property of its own: it renders as
  \<^verbatim>\<open>[object Object]\<close> through the inherited \<^verbatim>\<open>toString\<close>, and when an own \<^verbatim>\<open>toString\<close>
  property shadows that one, \<^verbatim>\<open>ToPrimitive\<close> finds no primitive and throws a \<^verbatim>\<open>TypeError\<close>
  (with either hint).
\<close>

fun toStringJS :: "jsval \<Rightarrow> jsError + string"
  and joinJS :: "jsval list \<Rightarrow> jsError + string" where
  "toStringJS JUndefined = Inr ''undefined''"
| "toStringJS JNull = Inr ''null''"
| "toStringJS (JBool b) = Inr (if b then ''true'' else ''false'')"
| "toStringJS (JNum r t) = Inr t"
| "toStringJS (JInfinity neg) = Inr (if neg then ''-Infinity'' else ''Infinity'')"
| "toStringJS (JStr s) = Inr s"
| "toStringJS (JArr xs) = joinJS xs"
| "toStringJS (JObj kvs) =
     (if ''toString'' \<in> fst ` set kvs then Inl TypeError else Inr ''[object Object]'')"
| "joinJS [] = Inr []"
| "joinJS (x # xs) =
     (case (if x = JUndefined \<or> x = JNull then Inr [] else toStringJS x) of
        Inl e \<Rightarrow> Inl e
      | Inr a \<Rightarrow>
          if xs = [] then Inr a
          else (case joinJS xs of Inl e \<Rightarrow> Inl e | Inr b \<Rightarrow> Inr (a @ '','' @ b)))"

text \<open>
  \<^verbatim>\<open>BigInt(v)\<close>: a number converts when it is integral (\<^verbatim>\<open>RangeError\<close> otherwise), a
  boolean to 0 or 1, a string through \<^verbatim>\<open>StringToBigInt\<close> (\<^verbatim>\<open>SyntaxError\<close> when it is no
  literal), an array or object through its primitive text.
\<close>

definition parseBigInt :: "string \<Rightarrow> jsError + int" where
  "parseBigInt s = (case StringToBigInt s of None \<Rightarrow> Inl SyntaxError | Some n \<Rightarrow> Inr n)"

fun BigInt :: "jsval \<Rightarrow> jsError + int" where
  "BigInt JUndefined = Inl TypeError"
| "BigInt JNull = Inl TypeError"
| "BigInt (JBool b) = Inr (if b then 1 else 0)"
| "BigInt (JNum r t) = (if r = of_int \<lfloor>r\<rfloor> then Inr \<lfloor>r\<rfloor> else Inl RangeError)"
| "BigInt (JInfinity neg) = Inl RangeError"
| "BigInt (JStr s) = parseBigInt s"
| "BigInt (JArr xs) = (case joinJS xs of Inl e \<Rightarrow> Inl e | Inr s \<Rightarrow> parseBigInt s)"
| "BigInt (JObj kvs) =
     (case toStringJS (JObj kvs) of Inl e \<Rightarrow> Inl e | Inr s \<Rightarrow> parseBigInt s)"

section \<open>The chain RPC and the payment verifier\<close>

text \<open>
  One \<^verbatim>\<open>fetch\<close> followed by \<^verbatim>\<open>response.json()\<close>: the transport fails, or the body is no
  JSON, or it parses to a value. The node is a function of the RPC method and the
  transaction hash sent to it.
\<close>

datatype fetchOutcome = TransportFailure | MalformedJson | Parsed jsval

type_synonym rpcNode = "string \<Rightarrow> string \<Rightarrow> fetchOutcome"

definition fetchJson :: "rpcNode \<Rightarrow> string \<Rightarrow> string \<Rightarrow> jsError + jsval" where
  "fetchJson node method txHash =
     (case node method txHash of
        TransportFailure \<Rightarrow> Inl FetchError
      | MalformedJson \<Rightarrow> Inl JsonParseError
      | Parsed v \<Rightarrow> Inr v)"

definition QUERY_PRICE_WEI :: int where
  "QUERY_PRICE_WEI = 1000000000000000"

definition MONAD_TESTNET_CHAIN_ID :: int where
  "MONAD_TESTNET_CHAIN_ID = 10143"

definition QUERY_PRICE_MON :: string where
  "QUERY_PRICE_MON = ''0.001''"

text \<open>What the handler does to the outside world, in order.\<close>

record coreMessage =
  role :: jsval
  content :: jsval

datatype modelValue = GoogleModel string | ObjectPrototypeMember string

datatype event =
    RpcQuery string string
  | BodyRead
  | CompletionCall modelValue "coreMessage list" string

text \<open>
  The part of \<^verbatim>\<open>verifyPayment\<close> after the transaction has been fetched: recipient, then
  amount. \<^verbatim>\<open>tx.to?.toLowerCase()\<close> is \<^verbatim>\<open>undefined\<close> for a missing or null recipient, the
  lowered string for a string, and a \<^verbatim>\<open>TypeError\<close> for any other value (it has no callable
  \<^verbatim>\<open>toLowerCase\<close>).
\<close>

definition lowerTo :: "jsval \<Rightarrow> jsError + jsval" where
  "lowerTo t =
     (case t of
        JUndefined \<Rightarrow> Inr JUndefined
      | JNull \<Rightarrow> Inr JUndefined
      | JStr s \<Rightarrow> Inr (JStr (toLowerCase s))
      | _ \<Rightarrow> Inl TypeError)"

definition checkTransaction :: "jsval \<Rightarrow> string \<Rightarrow> jsError + bool" where
  "checkTransaction txData expectedRecipient =
     (case getProp txData ''result'' of
        Inl e \<Rightarrow> Inl e
      | Inr tx \<Rightarrow>
          if \<not> truthy tx then Inr False
          else (case getProp tx ''to'' of
              Inl e \<Rightarrow> Inl e
            | Inr to \<Rightarrow>
               (case lowerTo to of
                  Inl e \<Rightarrow> Inl e
                | Inr txTo \<Rightarrow>
                    if txTo \<noteq> JStr (toLowerCase expectedRecipient) then Inr False
                    else (case getProp tx ''value'' of
                        Inl e \<Rightarrow> Inl e
                      | Inr v \<Rightarrow>
                         (case BigInt (orElse v (JStr ''0'')) of
                            Inl e \<Rightarrow> Inl e
                          | Inr txValue \<Rightarrow>
                              if txValue < QUERY_PRICE_WEI then Inr False else Inr True)))))"

text \<open>The body of the \<^verbatim>\<open>try\<close> block of \<^verbatim>\<open>verifyPayment\<close>, with the queries it issued.\<close>

definition verifyPaymentTry :: "rpcNode \<Rightarrow> string \<Rightarrow> string \<Rightarrow> (jsError + bool) \<times> event list" where
  "verifyPaymentTry node txHash expectedRecipient =
     (let q1 = [RpcQuery ''eth_getTransactionReceipt'' txHash];
          q2 = q1 @ [RpcQuery ''eth_getTransactionByHash'' txHash]
      in case fetchJson node ''eth_getTransactionReceipt'' txHash of
           Inl e \<Rightarrow> (Inl e, q1)
         | Inr data \<Rightarrow>
            (case getProp data ''result'' of
               Inl e \<Rightarrow> (Inl e, q1)
             | Inr receipt \<Rightarrow>
                 if \<not> truthy receipt then (Inr False, q1)
                 else (case getProp receipt ''status'' of
                     Inl e \<Rightarrow> (Inl e, q1)
                   | Inr st \<Rightarrow>
                       if st \<noteq> JStr ''0x1'' then (Inr False, q1)
                       else (case fetchJson node ''eth_getTransactionByHash'' txHash of
                           Inl e \<Rightarrow> (Inl e, q2)
                         | Inr txData \<Rightarrow> (checkTransaction txData expectedRecipient, q2)))))"

text \<open>\<^verbatim>\<open>verifyPayment\<close>: the \<^verbatim>\<open>catch\<close> turns every exception into \<^verbatim>\<open>false\<close>.\<close>

definition verifyPayment :: "rpcNode \<Rightarrow> string \<Rightarrow> string \<Rightarrow> bool \<times> event list" where
  "verifyPayment node txHash expectedRecipient =
     (case verifyPaymentTry node txHash expectedRecipient of
        (Inl e, evs) \<Rightarrow> (False, evs)
      | (Inr b, evs) \<Rightarrow> (b, evs))"

section \<open>The request gate\<close>

record env =
  SERVER_WALLET :: "string option"
  NEXT_PUBLIC_APP_URL :: "string option"

text \<open>
  A request: the \<^verbatim>\<open>x-payment\<close> header (\<^verbatim>\<open>headers.get\<close> gives \<^verbatim>\<open>null\<close> when it is absent) and
  what \<^verbatim>\<open>request.json()\<close> will give when the body is read.
\<close>

datatype bodyOutcome = BodyInvalid | BodyJson jsval

record request =
  xPayment :: "string option"
  jsonBody :: bodyOutcome

text \<open>
  A response. \<open>JsonBody v\<close> is the text \<^verbatim>\<open>JSON.stringify(v)\<close>, \<open>JsonHeader v\<close> likewise;
  \<open>ErrorReport e\<close> is the object \<^verbatim>\<open>{error, details}\<close> built from the caught exception
  (its message, or \<^verbatim>\<open>Internal server error\<close> when it has none, and its serialised
  properties).
\<close>

datatype headerValue = PlainHeader string | JsonHeader jsval

datatype responseBody = JsonBody jsval | TextStream "string list" | ErrorReport jsError

record response =
  status :: nat
  headers :: "(string \<times> headerValue) list"
  body :: responseBody

text \<open>The completion capability (\<^verbatim>\<open>streamText\<close>): model, messages, system prompt.\<close>

type_synonym completion = "modelValue \<Rightarrow> coreMessage list \<Rightarrow> string \<Rightarrow> jsError + string list"

definition jsonHeaders :: "(string \<times> headerValue) list" where
  "jsonHeaders = [(''Content-Type'', PlainHeader ''application/json'')]"

definition configErrorResponse :: response where
  "configErrorResponse =
     \<lparr>status = 500, headers = jsonHeaders,
      body = JsonBody (JObj [(''error'', JStr ''Server configuration error'')])\<rparr>"

definition paymentRequirement :: "env \<Rightarrow> string \<Rightarrow> jsval" where
  "paymentRequirement e serverWallet =
     JObj [
       (''scheme'', JStr ''exact''),
       (''network'', JStr (''eip155:'' @ showInt MONAD_TESTNET_CHAIN_ID)),
       (''maxAmountRequired'', JStr (showInt QUERY_PRICE_WEI)),
       (''resource'', JStr ((case NEXT_PUBLIC_APP_URL e of None \<Rightarrow> ''undefined'' | Some u \<Rightarrow> u)
                            @ ''/api/chat'')),
       (''description'', JStr ''AI Query Payment''),
       (''mimeType'', JStr ''application/json''),
       (''payTo'', JStr serverWallet),
       (''maxTimeoutSeconds'', JNum 86400 ''86400''),
       (''asset'', JStr ''native''),
       (''outputSchema'', JObj [(''input'', JObj [(''type'', JStr ''http''),
          (''method'', JStr ''POST''), (''discoverable'', JBool True)])]),
       (''extra'', JObj [
          (''recipientAddress'', JStr serverWallet),
          (''name'', JStr ''MON''),
          (''symbol'', JStr ''MON''),
          (''decimals'', JNum 18 ''18''),
          (''priceFormatted'', JStr (QUERY_PRICE_MON @ '' MON''))])]"

definition challengeResponse :: "env \<Rightarrow> string \<Rightarrow> response" where
  "challengeResponse e serverWallet =
     \<lparr>status = 402, headers = jsonHeaders,
      body = JsonBody (JObj [
        (''x402Version'', JNum 1 ''1''),
        (''error'', JStr ''X-PAYMENT header is required''),
        (''accepts'', JArr [paymentRequirement e serverWallet])])\<rparr>"

definition rejectionMessage :: string where
  "rejectionMessage =
     ''Payment verification failed. Please ensure the transaction is confirmed on Monad testnet.''"

definition rejectionResponse :: response where
  "rejectionResponse =
     \<lparr>status = 402, headers = jsonHeaders,
      body = JsonBody (JObj [(''x402Version'', JNum 1 ''1''), (''error'', JStr rejectionMessage)])\<rparr>"

definition internalErrorResponse :: "jsError \<Rightarrow> response" where
  "internalErrorResponse e = \<lparr>status = 500, headers = jsonHeaders, body = ErrorReport e\<rparr>"

subsection \<open>Model selection\<close>

text \<open>
  \<^verbatim>\<open>models[modelId] || google('gemini-2.5-flash')\<close>. The table is an object literal, so the
  lookup converts \<^verbatim>\<open>modelId\<close> to a property key and, past the three own properties, finds
  what the table inherits from \<^verbatim>\<open>Object.prototype\<close>; every such member is a function or an
  object, hence truthy.
\<close>

definition models :: "(string \<times> modelValue) list" where
  "models =
     [(''gemini-2.5-flash'', GoogleModel ''gemini-2.5-flash''),
      (''gemini-2.0-flash'', GoogleModel ''gemini-2.0-flash''),
      (''gemini-1.5-pro'', GoogleModel ''gemini-1.5-pro'')]"

definition objectPrototypeMembers :: "string list" where
  "objectPrototypeMembers =
     [''constructor'', ''__defineGetter__'', ''__defineSetter__'', ''hasOwnProperty'',
      ''__lookupGetter__'', ''__lookupSetter__'', ''isPrototypeOf'', ''propertyIsEnumerable'',
      ''toString'', ''valueOf'', ''__proto__'', ''toLocaleString'']"

definition getGoogleModel :: "jsval \<Rightarrow> jsError + modelValue" where
  "getGoogleModel modelId =
     (case toStringJS modelId of
        Inl e \<Rightarrow> Inl e
      | Inr k \<Rightarrow>
         (case map_of models k of
            Some m \<Rightarrow> Inr m
          | None \<Rightarrow>
              if k \<in> set objectPrototypeMembers then Inr (ObjectPrototypeMember k)
              else Inr (GoogleModel ''gemini-2.5-flash'')))"

subsection \<open>The completion relay\<close>

definition systemPrompt :: string where
  "systemPrompt = ''You are a helpful AI assistant. Provide clear, accurate, and concise responses.''"

fun coreMessages :: "jsval list \<Rightarrow> jsError + coreMessage list" where
  "coreMessages [] = Inr []"
| "coreMessages (msg # rest) =
     (case getProp msg ''role'' of
        Inl e \<Rightarrow> Inl e
      | Inr r \<Rightarrow>
         (case getProp msg ''content'' of
            Inl e \<Rightarrow> Inl e
          | Inr c \<Rightarrow>
             (case coreMessages rest of
                Inl e \<Rightarrow> Inl e
              | Inr ms \<Rightarrow> Inr (\<lparr>role = r, content = c\<rparr> # ms))))"

text \<open>The messages after the destructuring default \<^verbatim>\<open>messages = []\<close>, which replaces
  \<^verbatim>\<open>undefined\<close> only.\<close>

definition messagesOrDefault :: "jsval \<Rightarrow> jsval" where
  "messagesOrDefault m = (if m = JUndefined then JArr [] else m)"

definition streamResponse :: "string \<Rightarrow> string list \<Rightarrow> response" where
  "streamResponse paymentData chunks =
     \<lparr>status = 200,
      headers = [(''Content-Type'', PlainHeader ''text/plain; charset=utf-8''),
                 (''X-Payment-Receipt'',
                  JsonHeader (JObj [(''txHash'', JStr paymentData), (''verified'', JBool True)]))],
      body = TextStream chunks\<rparr>"

text \<open>What \<^verbatim>\<open>POST\<close> does once the payment is verified, with the events of that part.\<close>

definition completionStage :: "completion \<Rightarrow> request \<Rightarrow> string \<Rightarrow> (jsError + response) \<times> event list" where
  "completionStage llm req paymentData =
     (case jsonBody req of
        BodyInvalid \<Rightarrow> (Inl JsonParseError, [BodyRead])
      | BodyJson b \<Rightarrow>
         (case getProp b ''messages'' of
            Inl e \<Rightarrow> (Inl e, [BodyRead])
          | Inr m \<Rightarrow>
             (case getProp b ''model'' of
                Inl e \<Rightarrow> (Inl e, [BodyRead])
              | Inr model \<Rightarrow>
                 (case getGoogleModel model of
                    Inl e \<Rightarrow> (Inl e, [BodyRead])
                  | Inr selectedModel \<Rightarrow>
                     (case messagesOrDefault m of
                        JArr msgs \<Rightarrow>
                         (case coreMessages msgs of
                            Inl e \<Rightarrow> (Inl e, [BodyRead])
                          | Inr cms \<Rightarrow>
                             (case llm selectedModel cms systemPrompt of
                                Inl e \<Rightarrow>
                                  (Inl e, [BodyRead, CompletionCall selectedModel cms systemPrompt])
                              | Inr chunks \<Rightarrow>
                                  (Inr (streamResponse paymentData chunks),
                                   [BodyRead, CompletionCall selectedModel cms systemPrompt])))
                      | _ \<Rightarrow> (Inl (Thrown ''Messages must be an array''), [BodyRead]))))))"

subsection \<open>The handler\<close>

text \<open>\<^verbatim>\<open>!s\<close> on a string that may be missing: true for \<^verbatim>\<open>undefined\<close>, \<^verbatim>\<open>null\<close> and the empty
  string.\<close>

definition missing :: "string option \<Rightarrow> bool" where
  "missing s = (case s of None \<Rightarrow> True | Some t \<Rightarrow> t = [])"

definition POST :: "env \<Rightarrow> rpcNode \<Rightarrow> completion \<Rightarrow> request \<Rightarrow> response \<times> event list" where
  "POST e node llm req =
     (let paymentData = xPayment req; serverWallet = SERVER_WALLET e
      in if missing serverWallet then (configErrorResponse, [])
         else if missing paymentData then (challengeResponse e (the serverWallet), [])
         else (case verifyPayment node (the paymentData) (the serverWallet) of
             (isValid, evs) \<Rightarrow>
               if \<not> isValid then (rejectionResponse, evs)
               else (case completionStage llm req (the paymentData) of
                   (Inl err, evs') \<Rightarrow> (internalErrorResponse err, evs @ evs')
                 | (Inr resp, evs') \<Rightarrow> (resp, evs @ evs'))))"

section \<open>Case-insensitive equality, as the specification words it\<close>

text \<open>
  Two code units are the same letter up to case when they are equal or one is the capital
  of the other; two addresses are equal ignoring case when they have the same length and
  agree unit by unit up to case.
\<close>

definition caseVariant :: "char \<Rightarrow> char \<Rightarrow> bool" where
  "caseVariant c d =
     (c = d
      \<or> (isUpperUnit c \<and> (of_char d :: nat) = of_char c + 32)
      \<or> (isUpperUnit d \<and> (of_char c :: nat) = of_char d + 32))"

definition equalIgnoringCase :: "string \<Rightarrow> string \<Rightarrow> bool" where
  "equalIgnoringCase s t = list_all2 caseVariant s t"

section \<open>Example inputs\<close>

definition exampleWallet :: string where
  "exampleWallet = ''0x52908400098527886E0F7030069857D2E4169EE7''"

definition exampleHash :: string where
  "exampleHash = ''0x88df016429689c079f3b2f6ad39fa052532c56795b733da78a91ebe6a713944b''"

definition exampleEnv :: env where
  "exampleEnv = \<lparr>SERVER_WALLET = Some exampleWallet, NEXT_PUBLIC_APP_URL = Some ''http://localhost:3000''\<rparr>"

text \<open>A JSON-RPC reply carrying \<open>r\<close> as its result.\<close>

definition rpcResult :: "jsval \<Rightarrow> jsval" where
  "rpcResult r = JObj [(''jsonrpc'', JStr ''2.0''), (''id'', JNum 1 ''1''), (''result'', r)]"

text \<open>A node that answers the receipt query with one outcome and any other query with
  another.\<close>

definition nodeOf :: "fetchOutcome \<Rightarrow> fetchOutcome \<Rightarrow> rpcNode" where
  "nodeOf receiptDoc txDoc method h =
     (if method = ''eth_getTransactionReceipt'' then receiptDoc else txDoc)"

definition receiptWith :: "jsval \<Rightarrow> jsval" where
  "receiptWith st = JObj [(''transactionHash'', JStr exampleHash), (''status'', st)]"

definition txOf :: "jsval \<Rightarrow> jsval \<Rightarrow> jsval" where
  "txOf t v = JObj [(''hash'', JStr exampleHash), (''to'', t), (''value'', v)]"

text \<open>A node on which the example transaction succeeded, paying \<open>v\<close> to \<open>t\<close>.\<close>

definition paidNode :: "jsval \<Rightarrow> jsval \<Rightarrow> rpcNode" where
  "paidNode t v =
     nodeOf (Parsed (rpcResult (receiptWith (JStr ''0x1'')))) (Parsed (rpcResult (txOf t v)))"

definition echoCompletion :: completion where
  "echoCompletion m ms s = Inr [''Hello'', '' world'']"

definition chatRequest :: "jsval \<Rightarrow> request" where
  "chatRequest b = \<lparr>xPayment = Some exampleHash, jsonBody = BodyJson b\<rparr>"

section \<open>Properties of the verifier\<close>

lemma verifyPayment_unfold:
  "fst (verifyPayment node h w) = (fst (verifyPaymentTry node h w) = Inr True)"
  by (cases "verifyPaymentTry node h w") (auto simp: verifyPayment_def split: sum.splits)

lemma verifyPayment_events:
  "snd (verifyPayment node h w) = snd (verifyPaymentTry node h w)"
  by (cases "verifyPaymentTry node h w") (auto simp: verifyPayment_def split: sum.splits)

lemma verifyPaymentTry_events:
  "set (snd (verifyPaymentTry node h w))
     \<subseteq> {RpcQuery ''eth_getTransactionReceipt'' h, RpcQuery ''eth_getTransactionByHash'' h}"
  by (auto simp: verifyPaymentTry_def Let_def split: sum.splits if_splits)

lemma fetchJson_Inr_iff: "fetchJson node m h = Inr v \<longleftrightarrow> node m h = Parsed v"
  by (simp add: fetchJson_def split: fetchOutcome.splits)

lemma lowerTo_JStr: "lowerTo (JStr u) = Inr (JStr (toLowerCase u))"
  by (simp add: lowerTo_def)

lemma lowerTo_Inr_JStr_iff: "lowerTo t = Inr (JStr s) \<longleftrightarrow> (\<exists>u. t = JStr u \<and> s = toLowerCase u)"
  by (cases t) (auto simp: lowerTo_def)

lemma checkTransaction_True_iff:
  "checkTransaction txData w = Inr True \<longleftrightarrow>
     (\<exists>tx t v n. getProp txData ''result'' = Inr tx \<and> truthy tx
        \<and> getProp tx ''to'' = Inr (JStr t) \<and> toLowerCase t = toLowerCase w
        \<and> getProp tx ''value'' = Inr v
        \<and> BigInt (orElse v (JStr ''0'')) = Inr n \<and> QUERY_PRICE_WEI \<le> n)"
  unfolding checkTransaction_def
  by (auto simp: lowerTo_Inr_JStr_iff lowerTo_JStr split: sum.splits if_splits)

lemma verifyPaymentTry_True_iff:
  "fst (verifyPaymentTry node h w) = Inr True \<longleftrightarrow>
     (\<exists>data receipt txData.
        node ''eth_getTransactionReceipt'' h = Parsed data
        \<and> getProp data ''result'' = Inr receipt \<and> truthy receipt
        \<and> getProp receipt ''status'' = Inr (JStr ''0x1'')
        \<and> node ''eth_getTransactionByHash'' h = Parsed txData
        \<and> checkTransaction txData w = Inr True)"
  unfolding verifyPaymentTry_def Let_def fetchJson_def
  by (auto split: sum.splits if_splits fetchOutcome.splits)

lemma verifyPayment_True_iff:
  "fst (verifyPayment node h w) \<longleftrightarrow>
     (\<exists>data receipt txData tx t v n.
        node ''eth_getTransactionReceipt'' h = Parsed data
        \<and> getProp data ''result'' = Inr receipt \<and> truthy receipt
        \<and> getProp receipt ''status'' = Inr (JStr ''0x1'')
        \<and> node ''eth_getTransactionByHash'' h = Parsed txData
        \<and> getProp txData ''result'' = Inr tx \<and> truthy tx
        \<and> getProp tx ''to'' = Inr (JStr t) \<and> toLowerCase t = toLowerCase w
        \<and> getProp tx ''value'' = Inr v
        \<and> BigInt (orElse v (JStr ''0'')) = Inr n \<and> QUERY_PRICE_WEI \<le> n)"
  unfolding verifyPayment_unfold verifyPaymentTry_True_iff checkTransaction_True_iff
  by blast

lemma verifyPayment_resolved:
  assumes "node ''eth_getTransactionReceipt'' h = Parsed data"
    and "getProp data ''result'' = Inr receipt" and "truthy receipt"
    and "getProp receipt ''status'' = Inr (JStr ''0x1'')"
    and "node ''eth_getTransactionByHash'' h = Parsed txData"
  shows "fst (verifyPayment node h w) = (checkTransaction txData w = Inr True)"
  using assms unfolding verifyPayment_unfold verifyPaymentTry_True_iff by auto

lemma checkTransaction_resolved:
  assumes "getProp txData ''result'' = Inr tx" and "truthy tx"
    and "getProp tx ''to'' = Inr to" and "getProp tx ''value'' = Inr v"
    and "BigInt (orElse v (JStr ''0'')) = Inr n"
  shows "(checkTransaction txData w = Inr True)
           = ((\<exists>t. to = JStr t \<and> toLowerCase t = toLowerCase w) \<and> QUERY_PRICE_WEI \<le> n)"
  using assms unfolding checkTransaction_True_iff by auto

lemma verifyPayment_only_queries:
  "set (snd (verifyPayment node h w))
     \<subseteq> {RpcQuery ''eth_getTransactionReceipt'' h, RpcQuery ''eth_getTransactionByHash'' h}"
  unfolding verifyPayment_events by (rule verifyPaymentTry_events)

section \<open>Properties of the string operations\<close>

lemma isUpperUnit_lowerUnit: "\<not> isUpperUnit (lowerUnit c)"
  by (auto simp: lowerUnit_def isUpperUnit_def Let_def)

lemma of_char_lowerUnit:
  "(of_char (lowerUnit c) :: nat) = (if isUpperUnit c then of_char c + 32 else of_char c)"
  by (auto simp: lowerUnit_def isUpperUnit_def Let_def)

lemma lowerUnit_eq_iff: "lowerUnit c = lowerUnit d \<longleftrightarrow> caseVariant c d"
proof -
  have "lowerUnit c = lowerUnit d \<longleftrightarrow> (of_char (lowerUnit c) :: nat) = of_char (lowerUnit d)"
    by simp
  also have "\<dots> \<longleftrightarrow> caseVariant c d"
    unfolding of_char_lowerUnit caseVariant_def
    using of_char_eq_iff [of c d, where ?'a = nat]
    by (auto simp: isUpperUnit_def Let_def simp del: of_char_eq_iff)
  finally show ?thesis .
qed

lemma toLowerCase_eq_iff: "toLowerCase s = toLowerCase t \<longleftrightarrow> equalIgnoringCase s t"
proof -
  have "map lowerUnit s = map lowerUnit t \<longleftrightarrow> list_all2 (\<lambda>c d. lowerUnit c = lowerUnit d) s t"
    by (auto simp: list_all2_conv_all_nth list_eq_iff_nth_eq)
  then show ?thesis
    by (simp add: toLowerCase_def equalIgnoringCase_def lowerUnit_eq_iff)
qed

lemma char_of_nat_eq_iff: "char_of (n::nat) = c \<longleftrightarrow> n mod 256 = of_char c"
proof
  assume "char_of n = c"
  then have "(of_char (char_of n) :: nat) = of_char c" by simp
  then show "n mod 256 = of_char c" by simp
next
  assume "n mod 256 = of_char c"
  then have "char_of (n mod 256) = char_of (of_char c :: nat)" by simp
  then show "char_of n = c" by simp
qed

lemma eq_char_of_nat_iff: "c = char_of (n::nat) \<longleftrightarrow> n mod 256 = of_char c"
  using char_of_nat_eq_iff [of n c] by auto

text \<open>Unfolding these evaluates the operations on literals.\<close>

lemmas lower_defs = toLowerCase_def lowerUnit_def isUpperUnit_def char_of_nat_eq_iff
  eq_char_of_nat_iff

lemmas parse_defs = parseBigInt_def StringToBigInt_def trimJS_def isWhiteSpace_def
  parseDigits_def digitVal_def Let_def

lemma showInt_price: "showInt QUERY_PRICE_WEI = ''1000000000000000''"
  by (simp add: QUERY_PRICE_WEI_def showInt_def showNat.simps digitChar_def)

lemma showInt_chain: "showInt MONAD_TESTNET_CHAIN_ID = ''10143''"
  by (simp add: MONAD_TESTNET_CHAIN_ID_def showInt_def showNat.simps digitChar_def)

section \<open>Properties of the gate\<close>

lemma coreMessages_Inr:
  "coreMessages msgs = Inr cms \<Longrightarrow>
     length cms = length msgs \<and>
     (\<forall>i < length msgs. getProp (msgs ! i) ''role'' = Inr (role (cms ! i))
                      \<and> getProp (msgs ! i) ''content'' = Inr (content (cms ! i)))"
proof (induction msgs arbitrary: cms)
  case Nil
  then show ?case by simp
next
  case (Cons m ms)
  then obtain r c rest where
    r: "getProp m ''role'' = Inr r" and c: "getProp m ''content'' = Inr c"
    and rest: "coreMessages ms = Inr rest" and cms: "cms = \<lparr>role = r, content = c\<rparr> # rest"
    by (auto split: sum.splits)
  from Cons.IH [OF rest] r c cms show ?case
    by (auto simp: nth_Cons split: nat.splits)
qed

lemma completionStage_call:
  assumes "CompletionCall m cms s \<in> set (snd (completionStage llm req p))"
  shows "\<exists>b mv mdl msgs. jsonBody req = BodyJson b
           \<and> getProp b ''messages'' = Inr mv \<and> messagesOrDefault mv = JArr msgs
           \<and> coreMessages msgs = Inr cms
           \<and> getProp b ''model'' = Inr mdl \<and> getGoogleModel mdl = Inr m \<and> s = systemPrompt"
  using assms unfolding completionStage_def
  by (auto split: bodyOutcome.splits sum.splits jsval.splits)

lemma POST_events:
  "snd (POST e node llm req) =
     (if missing (SERVER_WALLET e) \<or> missing (xPayment req) then []
      else if \<not> fst (verifyPayment node (the (xPayment req)) (the (SERVER_WALLET e)))
        then snd (verifyPayment node (the (xPayment req)) (the (SERVER_WALLET e)))
      else snd (verifyPayment node (the (xPayment req)) (the (SERVER_WALLET e)))
           @ snd (completionStage llm req (the (xPayment req))))"
  by (auto simp: POST_def Let_def split: prod.splits sum.splits)

lemma POST_response:
  "fst (POST e node llm req) =
     (if missing (SERVER_WALLET e) then configErrorResponse
      else if missing (xPayment req) then challengeResponse e (the (SERVER_WALLET e))
      else if \<not> fst (verifyPayment node (the (xPayment req)) (the (SERVER_WALLET e)))
        then rejectionResponse
      else (case fst (completionStage llm req (the (xPayment req))) of
              Inl err \<Rightarrow> internalErrorResponse err | Inr resp \<Rightarrow> resp))"
  by (auto simp: POST_def Let_def split: prod.splits sum.splits)

lemma status_responses:
  "status configErrorResponse = 500" "status (challengeResponse e w) = 402"
  "status rejectionResponse = 402" "status (internalErrorResponse err) = 500"
  "status (streamResponse p chunks) = 200"
  by (simp_all add: configErrorResponse_def challengeResponse_def rejectionResponse_def
      internalErrorResponse_def streamResponse_def)

lemma getGoogleModel_string:
  "getGoogleModel (JStr k) =
     Inr (if k \<in> {''gemini-2.5-flash'', ''gemini-2.0-flash'', ''gemini-1.5-pro''} then GoogleModel k
          else if k \<in> set objectPrototypeMembers then ObjectPrototypeMember k
          else GoogleModel ''gemini-2.5-flash'')"
  by (simp add: getGoogleModel_def models_def)

lemma POST_admitted:
  assumes "SERVER_WALLET e = Some w" and "w \<noteq> []" and "xPayment req = Some p" and "p \<noteq> []"
    and "verifyPayment node p w = (True, evs)"
  shows "snd (POST e node llm req) = evs @ snd (completionStage llm req p)"
    and "fst (POST e node llm req) =
           (case fst (completionStage llm req p) of
              Inl err \<Rightarrow> internalErrorResponse err | Inr resp \<Rightarrow> resp)"
  using assms by (simp_all add: POST_events POST_response missing_def)

subsection \<open>The example inputs\<close>

lemma exampleEnv_configured:
  "\<not> missing (SERVER_WALLET exampleEnv)" "the (SERVER_WALLET exampleEnv) = exampleWallet"
  "SERVER_WALLET exampleEnv = Some exampleWallet" "exampleWallet \<noteq> []"
  by (simp_all add: missing_def exampleEnv_def exampleWallet_def)

lemma paidNode_simps:
  "paidNode t v ''eth_getTransactionReceipt'' h = Parsed (rpcResult (receiptWith (JStr ''0x1'')))"
  "paidNode t v ''eth_getTransactionByHash'' h = Parsed (rpcResult (txOf t v))"
  by (simp_all add: paidNode_def nodeOf_def)

lemma example_props:
  "getProp (rpcResult r) ''result'' = Inr r"
  "getProp (receiptWith st) ''status'' = Inr st"
  "truthy (receiptWith st)"
  "getProp (txOf t v) ''to'' = Inr t"
  "getProp (txOf t v) ''value'' = Inr v"
  "truthy (txOf t v)"
  by (simp_all add: rpcResult_def receiptWith_def txOf_def)

lemma paidNode_accepts:
  "verifyPayment (paidNode (JStr exampleWallet) (JStr ''0x38D7EA4C68000'')) exampleHash exampleWallet
     = (True, [RpcQuery ''eth_getTransactionReceipt'' exampleHash,
               RpcQuery ''eth_getTransactionByHash'' exampleHash])"
  by (simp add: verifyPayment_def verifyPaymentTry_def fetchJson_def paidNode_simps
      example_props checkTransaction_def lowerTo_def orElse_def parse_defs QUERY_PRICE_WEI_def)

section \<open>The claims\<close>

text \<open>
  C7. When the recipient address is not configured (\<^verbatim>\<open>SERVER_WALLET\<close> undefined or empty),
  the handler answers every request with status 500 and the body
  \<^verbatim>\<open>{error: 'Server configuration error'}\<close>, whether or not a proof header is present; no
  challenge is issued, no query goes to the node and the body is not read.
\<close>

theorem missing_wallet_is_500:
  "missing (SERVER_WALLET e) \<Longrightarrow>
     POST e node llm req = (configErrorResponse, [])
     \<and> status configErrorResponse = 500
     \<and> body configErrorResponse = JsonBody (JObj [(''error'', JStr ''Server configuration error'')])"
  by (simp add: POST_def Let_def configErrorResponse_def)

theorem missing_wallet_is_500_witness:
  "missing (SERVER_WALLET \<lparr>SERVER_WALLET = None, NEXT_PUBLIC_APP_URL = None\<rparr>)
   \<and> POST \<lparr>SERVER_WALLET = None, NEXT_PUBLIC_APP_URL = None\<rparr>
        (paidNode (JStr exampleWallet) (JStr ''0x38D7EA4C68000'')) echoCompletion
        (chatRequest (JObj [])) = (configErrorResponse, [])"
proof -
  have h: "missing (SERVER_WALLET \<lparr>SERVER_WALLET = None, NEXT_PUBLIC_APP_URL = None\<rparr>)"
    by (simp add: missing_def)
  from missing_wallet_is_500 [OF h] h show ?thesis by blast
qed

text \<open>
  C10. A request whose \<^verbatim>\<open>x-payment\<close> header is present but empty is handled exactly as the
  same request without the header: nothing is sent to the node (the verifier is not
  invoked), and with the recipient configured the answer is the 402 challenge.
\<close>

theorem empty_proof_header_is_absent:
  "xPayment req = Some [] \<Longrightarrow>
     POST e node llm req = POST e node llm (req\<lparr>xPayment := None\<rparr>)
     \<and> snd (POST e node llm req) = []
     \<and> (\<not> missing (SERVER_WALLET e) \<longrightarrow>
          fst (POST e node llm req) = challengeResponse e (the (SERVER_WALLET e))
          \<and> status (fst (POST e node llm req)) = 402)"
  by (simp add: prod_eq_iff POST_response POST_events missing_def challengeResponse_def)

theorem empty_proof_header_is_absent_witness:
  "xPayment \<lparr>xPayment = Some [], jsonBody = BodyJson (JObj [])\<rparr> = Some []
   \<and> \<not> missing (SERVER_WALLET exampleEnv)
   \<and> POST exampleEnv (paidNode (JStr exampleWallet) (JStr ''0x38D7EA4C68000'')) echoCompletion
        \<lparr>xPayment = Some [], jsonBody = BodyJson (JObj [])\<rparr>
      = (challengeResponse exampleEnv exampleWallet, [])"
proof -
  let ?req = "\<lparr>xPayment = Some [], jsonBody = BodyJson (JObj [])\<rparr>"
  let ?node = "paidNode (JStr exampleWallet) (JStr ''0x38D7EA4C68000'')"
  have h: "xPayment ?req = Some []" by simp
  note cfg = exampleEnv_configured(1) and w = exampleEnv_configured(2)
  from empty_proof_header_is_absent [OF h, of exampleEnv ?node echoCompletion] cfg
  have "fst (POST exampleEnv ?node echoCompletion ?req)
          = challengeResponse exampleEnv (the (SERVER_WALLET exampleEnv))"
    and "snd (POST exampleEnv ?node echoCompletion ?req) = []"
    by blast+
  then have "POST exampleEnv ?node echoCompletion ?req
               = (challengeResponse exampleEnv exampleWallet, [])"
    unfolding w by (simp add: prod_eq_iff)
  with h cfg show ?thesis by blast
qed

text \<open>
  C5. With the recipient configured, a request without proof header is answered with
  status 402 and a body whose \<^verbatim>\<open>accepts\<close> list has exactly one element, whose
  \<^verbatim>\<open>maxAmountRequired\<close> is the decimal text of the price, \<^verbatim>\<open>1000000000000000\<close>, and whose
  \<^verbatim>\<open>network\<close> is \<^verbatim>\<open>eip155:10143\<close>.
\<close>

theorem challenge_requirement:
  assumes "xPayment req = None" and "\<not> missing (SERVER_WALLET e)"
  shows "status (fst (POST e node llm req)) = 402
     \<and> snd (POST e node llm req) = []
     \<and> (\<exists>b a. body (fst (POST e node llm req)) = JsonBody b
           \<and> getProp b ''accepts'' = Inr (JArr [a])
           \<and> getProp a ''maxAmountRequired'' = Inr (JStr (showInt QUERY_PRICE_WEI))
           \<and> showInt QUERY_PRICE_WEI = ''1000000000000000''
           \<and> getProp a ''network'' = Inr (JStr ''eip155:10143''))"
  using assms
  by (simp add: POST_response POST_events missing_def challengeResponse_def
      paymentRequirement_def showInt_price showInt_chain)

theorem challenge_requirement_witness:
  "xPayment \<lparr>xPayment = None, jsonBody = BodyJson (JObj [])\<rparr> = None
   \<and> \<not> missing (SERVER_WALLET exampleEnv)
   \<and> status (fst (POST exampleEnv (paidNode (JStr exampleWallet) (JStr ''0x38D7EA4C68000''))
        echoCompletion \<lparr>xPayment = None, jsonBody = BodyJson (JObj [])\<rparr>)) = 402"
proof -
  let ?req = "\<lparr>xPayment = None, jsonBody = BodyJson (JObj [])\<rparr>"
  have h: "xPayment ?req = None" by simp
  note cfg = exampleEnv_configured(1)
  from challenge_requirement [OF h cfg] h cfg show ?thesis by blast
qed

text \<open>
  C6. When the receipt resolves (a truthy \<^verbatim>\<open>result\<close>) and its \<^verbatim>\<open>status\<close> is anything but the
  string \<^verbatim>\<open>0x1\<close>, another encoding of success included, \<^verbatim>\<open>verifyPayment\<close> returns false,
  without fetching the transaction.
\<close>

theorem non_success_status_rejected:
  assumes "node ''eth_getTransactionReceipt'' h = Parsed data"
    and "getProp data ''result'' = Inr receipt" and "truthy receipt"
    and "getProp receipt ''status'' = Inr st" and "st \<noteq> JStr ''0x1''"
  shows "verifyPayment node h w = (False, [RpcQuery ''eth_getTransactionReceipt'' h])"
  using assms by (simp add: verifyPayment_def verifyPaymentTry_def fetchJson_def)

theorem non_success_status_rejected_witness:
  "verifyPayment
     (nodeOf (Parsed (rpcResult (receiptWith (JStr ''0x01''))))
             (Parsed (rpcResult (txOf (JStr exampleWallet) (JStr ''0x38D7EA4C68000'')))))
     exampleHash exampleWallet
   = (False, [RpcQuery ''eth_getTransactionReceipt'' exampleHash])
   \<and> verifyPayment
     (nodeOf (Parsed (rpcResult (receiptWith (JStr ''0x0''))))
             (Parsed (rpcResult (txOf (JStr exampleWallet) (JStr ''0x38D7EA4C68000'')))))
     exampleHash exampleWallet
   = (False, [RpcQuery ''eth_getTransactionReceipt'' exampleHash])
   \<and> verifyPayment
     (nodeOf (Parsed (rpcResult (receiptWith (JNum 1 ''1''))))
             (Parsed (rpcResult (txOf (JStr exampleWallet) (JStr ''0x38D7EA4C68000'')))))
     exampleHash exampleWallet
   = (False, [RpcQuery ''eth_getTransactionReceipt'' exampleHash])"
proof -
  have inst: "verifyPayment (nodeOf (Parsed (rpcResult (receiptWith st))) t) exampleHash exampleWallet
                = (False, [RpcQuery ''eth_getTransactionReceipt'' exampleHash])"
    if "st \<noteq> JStr ''0x1''" for st t
    using that
      non_success_status_rejected [where node = "nodeOf (Parsed (rpcResult (receiptWith st))) t"
        and h = exampleHash and data = "rpcResult (receiptWith st)"
        and receipt = "receiptWith st" and st = st and w = exampleWallet]
    by (simp add: nodeOf_def example_props)
  show ?thesis by (simp add: inst)
qed

text \<open>
  C4. When the proof header is present and the verifier rejects it, the handler answers
  with status 402 and the body \<^verbatim>\<open>{x402Version: 1, error: <rejection message>}\<close>; the only
  events are the verifier's queries: the request body is not read and the completion
  capability is not called. The answer has the status and headers of the challenge and
  differs from it in the body.
\<close>

theorem rejected_proof_is_402:
  assumes "SERVER_WALLET e = Some w" and "w \<noteq> []"
    and "xPayment req = Some p" and "p \<noteq> []"
    and "\<not> fst (verifyPayment node p w)"
  shows "fst (POST e node llm req) = rejectionResponse
     \<and> status rejectionResponse = 402
     \<and> body rejectionResponse
         = JsonBody (JObj [(''x402Version'', JNum 1 ''1''), (''error'', JStr rejectionMessage)])
     \<and> snd (POST e node llm req) = snd (verifyPayment node p w)
     \<and> BodyRead \<notin> set (snd (POST e node llm req))
     \<and> (\<forall>m ms s. CompletionCall m ms s \<notin> set (snd (POST e node llm req)))
     \<and> status (challengeResponse e w) = status rejectionResponse
     \<and> headers (challengeResponse e w) = headers rejectionResponse
     \<and> body (challengeResponse e w) \<noteq> body rejectionResponse"
proof -
  have ev: "snd (POST e node llm req) = snd (verifyPayment node p w)"
    and resp: "fst (POST e node llm req) = rejectionResponse"
    using assms by (simp_all add: POST_events POST_response missing_def)
  have "BodyRead \<notin> set (snd (verifyPayment node p w))"
    and "\<And>m ms s. CompletionCall m ms s \<notin> set (snd (verifyPayment node p w))"
    using verifyPayment_only_queries [of node p w] by auto
  with ev resp show ?thesis
    by (simp add: rejectionResponse_def challengeResponse_def)
qed

theorem rejected_proof_is_402_witness:
  "\<not> fst (verifyPayment
       (nodeOf (Parsed (rpcResult (receiptWith (JStr ''0x0''))))
               (Parsed (rpcResult (txOf (JStr exampleWallet) (JStr ''0x38D7EA4C68000'')))))
       exampleHash exampleWallet)
   \<and> fst (POST exampleEnv
       (nodeOf (Parsed (rpcResult (receiptWith (JStr ''0x0''))))
               (Parsed (rpcResult (txOf (JStr exampleWallet) (JStr ''0x38D7EA4C68000'')))))
       echoCompletion (chatRequest (JObj []))) = rejectionResponse
   \<and> snd (POST exampleEnv
       (nodeOf (Parsed (rpcResult (receiptWith (JStr ''0x0''))))
               (Parsed (rpcResult (txOf (JStr exampleWallet) (JStr ''0x38D7EA4C68000'')))))
       echoCompletion (chatRequest (JObj []))) = [RpcQuery ''eth_getTransactionReceipt'' exampleHash]"
proof -
  let ?node = "nodeOf (Parsed (rpcResult (receiptWith (JStr ''0x0''))))
               (Parsed (rpcResult (txOf (JStr exampleWallet) (JStr ''0x38D7EA4C68000''))))"
  have v: "verifyPayment ?node exampleHash exampleWallet
             = (False, [RpcQuery ''eth_getTransactionReceipt'' exampleHash])"
    by (simp add: verifyPayment_def verifyPaymentTry_def fetchJson_def nodeOf_def
        rpcResult_def receiptWith_def)
  have p: "xPayment (chatRequest (JObj [])) = Some exampleHash" "exampleHash \<noteq> []"
    by (simp_all add: chatRequest_def exampleHash_def)
  have nv: "\<not> fst (verifyPayment ?node exampleHash exampleWallet)"
    by (simp add: v)
  from rejected_proof_is_402 [OF exampleEnv_configured(3) exampleEnv_configured(4) p nv,
      of echoCompletion] nv v
  show ?thesis by simp
qed

text \<open>
  C3. For a transaction with success status and sufficient value, \<^verbatim>\<open>verifyPayment\<close> accepts
  exactly when the transaction's \<^verbatim>\<open>to\<close> is a string equal to the expected recipient up to
  letter case: a difference in case only is accepted, any other difference (a \<^verbatim>\<open>to\<close>
  that is no string included) is rejected.
\<close>

theorem recipient_compared_ignoring_case:
  assumes "node ''eth_getTransactionReceipt'' h = Parsed data"
    and "getProp data ''result'' = Inr receipt" and "truthy receipt"
    and "getProp receipt ''status'' = Inr (JStr ''0x1'')"
    and "node ''eth_getTransactionByHash'' h = Parsed txData"
    and "getProp txData ''result'' = Inr tx" and "truthy tx"
    and "getProp tx ''to'' = Inr to"
    and "getProp tx ''value'' = Inr v"
    and "BigInt (orElse v (JStr ''0'')) = Inr n" and "QUERY_PRICE_WEI \<le> n"
  shows "fst (verifyPayment node h w) = (\<exists>t. to = JStr t \<and> equalIgnoringCase t w)"
  unfolding verifyPayment_resolved [of node h data receipt txData w, OF assms(1-5)]
    checkTransaction_resolved [OF assms(6-10)] toLowerCase_eq_iff
  using assms(11) by simp

theorem recipient_compared_ignoring_case_witness:
  "fst (verifyPayment
         (paidNode (JStr ''0x52908400098527886e0f7030069857d2e4169ee7'') (JStr ''0x38D7EA4C68000''))
         exampleHash exampleWallet)
   \<and> \<not> fst (verifyPayment
         (paidNode (JStr ''0x52908400098527886E0F7030069857D2E4169EE8'') (JStr ''0x38D7EA4C68000''))
         exampleHash exampleWallet)
   \<and> \<not> fst (verifyPayment (paidNode JNull (JStr ''0x38D7EA4C68000'')) exampleHash exampleWallet)"
proof -
  have amount: "BigInt (orElse (JStr ''0x38D7EA4C68000'') (JStr ''0'')) = Inr 1000000000000000"
    by (simp add: orElse_def parse_defs)
  have enough: "QUERY_PRICE_WEI \<le> 1000000000000000"
    by (simp add: QUERY_PRICE_WEI_def)
  have inst: "fst (verifyPayment (paidNode to (JStr ''0x38D7EA4C68000'')) exampleHash exampleWallet)
                = (\<exists>t. to = JStr t \<and> equalIgnoringCase t exampleWallet)" for to
    using amount enough
      recipient_compared_ignoring_case [where node = "paidNode to (JStr ''0x38D7EA4C68000'')"
        and h = exampleHash and data = "rpcResult (receiptWith (JStr ''0x1''))"
        and receipt = "receiptWith (JStr ''0x1'')"
        and txData = "rpcResult (txOf to (JStr ''0x38D7EA4C68000''))"
        and tx = "txOf to (JStr ''0x38D7EA4C68000'')" and to = to
        and v = "JStr ''0x38D7EA4C68000''" and n = 1000000000000000 and w = exampleWallet]
    by (simp add: paidNode_simps example_props)
  have "equalIgnoringCase ''0x52908400098527886e0f7030069857d2e4169ee7'' exampleWallet"
    unfolding toLowerCase_eq_iff [symmetric] by (simp add: lower_defs exampleWallet_def)
  moreover have "\<not> equalIgnoringCase ''0x52908400098527886E0F7030069857D2E4169EE8'' exampleWallet"
    unfolding toLowerCase_eq_iff [symmetric] by (simp add: lower_defs exampleWallet_def)
  ultimately show ?thesis by (simp add: inst)
qed

text \<open>
  C2. For a transaction with success status, paid to the expected recipient (up to case),
  whose value (\<^verbatim>\<open>'0'\<close> standing in for an absent or empty one) converts to the integer
  \<open>n\<close>: \<^verbatim>\<open>verifyPayment\<close> accepts exactly when \<open>n\<close> is at least the price, which is
  \<open>10^15\<close>. So one unit less is rejected, the exact price and any overpayment are accepted.
  The comparison is on unbounded integers; the witness includes \<open>2^256 - 1\<close>.
\<close>

theorem amount_threshold:
  assumes "node ''eth_getTransactionReceipt'' h = Parsed data"
    and "getProp data ''result'' = Inr receipt" and "truthy receipt"
    and "getProp receipt ''status'' = Inr (JStr ''0x1'')"
    and "node ''eth_getTransactionByHash'' h = Parsed txData"
    and "getProp txData ''result'' = Inr tx" and "truthy tx"
    and "getProp tx ''to'' = Inr (JStr t)"
    and "getProp tx ''value'' = Inr v"
    and "BigInt (orElse v (JStr ''0'')) = Inr n"
    and "toLowerCase t = toLowerCase w"
  shows "fst (verifyPayment node h w) = (QUERY_PRICE_WEI \<le> n)
     \<and> QUERY_PRICE_WEI = 10 ^ 15
     \<and> (\<not> truthy v \<longrightarrow> n = 0)"
proof -
  have "fst (verifyPayment node h w) = (QUERY_PRICE_WEI \<le> n)"
    unfolding verifyPayment_resolved [of node h data receipt txData w, OF assms(1-5)] checkTransaction_resolved [OF assms(6-10)]
    using assms(11) by simp
  moreover have "QUERY_PRICE_WEI = 10 ^ 15"
    by (simp add: QUERY_PRICE_WEI_def)
  moreover have "n = 0" if "\<not> truthy v"
    using that assms(10) by (simp add: orElse_def parse_defs)
  ultimately show ?thesis by blast
qed

theorem amount_threshold_witness:
  "\<not> fst (verifyPayment (paidNode (JStr exampleWallet) (JStr ''0x38D7EA4C67FFF''))
           exampleHash exampleWallet)
   \<and> fst (verifyPayment (paidNode (JStr exampleWallet) (JStr ''0x38D7EA4C68000''))
           exampleHash exampleWallet)
   \<and> fst (verifyPayment (paidNode (JStr exampleWallet)
             (JStr ''0xffffffffffffffffffffffffffffffffffffffffffffffffffffffffffffffff''))
           exampleHash exampleWallet)
   \<and> \<not> fst (verifyPayment (paidNode (JStr exampleWallet) JNull) exampleHash exampleWallet)"
proof -
  have inst: "fst (verifyPayment (paidNode (JStr exampleWallet) v) exampleHash exampleWallet)
                = (QUERY_PRICE_WEI \<le> n)"
    if "BigInt (orElse v (JStr ''0'')) = Inr n" for v n
    using that
      amount_threshold [where node = "paidNode (JStr exampleWallet) v"
        and h = exampleHash and data = "rpcResult (receiptWith (JStr ''0x1''))"
        and receipt = "receiptWith (JStr ''0x1'')"
        and txData = "rpcResult (txOf (JStr exampleWallet) v)"
        and tx = "txOf (JStr exampleWallet) v" and t = exampleWallet
        and v = v and n = n and w = exampleWallet]
    by (simp add: paidNode_simps example_props)
  have "BigInt (orElse (JStr ''0x38D7EA4C67FFF'') (JStr ''0'')) = Inr 999999999999999"
    by (simp add: orElse_def parse_defs)
  note a = inst [OF this]
  have "BigInt (orElse (JStr ''0x38D7EA4C68000'') (JStr ''0'')) = Inr 1000000000000000"
    by (simp add: orElse_def parse_defs)
  note b = inst [OF this]
  have "BigInt (orElse (JStr ''0xffffffffffffffffffffffffffffffffffffffffffffffffffffffffffffffff'')
          (JStr ''0'')) = Inr (2 ^ 256 - 1)"
    by (simp add: orElse_def parse_defs)
  note c = inst [OF this]
  have "BigInt (orElse JNull (JStr ''0'')) = Inr 0"
    by (simp add: orElse_def parse_defs)
  note d = inst [OF this]
  show ?thesis
    unfolding a b c d by (simp add: QUERY_PRICE_WEI_def)
qed

text \<open>
  C9. The claim is that an unrecognised model identifier falls back to
  \<^verbatim>\<open>gemini-2.5-flash\<close>. At the identifier \<^verbatim>\<open>constructor\<close> the lookup finds the member the
  table inherits from \<^verbatim>\<open>Object.prototype\<close>, and that member, not the default model, is
  handed to the completion capability.
\<close>

theorem inherited_key_is_not_default:
  "getGoogleModel (JStr ''constructor'') = Inr (ObjectPrototypeMember ''constructor'')
   \<and> snd (POST exampleEnv (paidNode (JStr exampleWallet) (JStr ''0x38D7EA4C68000'')) echoCompletion
        (chatRequest (JObj [(''messages'', JArr [JObj [(''role'', JStr ''user''), (''content'', JStr ''hi'')]]),
                            (''model'', JStr ''constructor'')])))
      = [RpcQuery ''eth_getTransactionReceipt'' exampleHash,
         RpcQuery ''eth_getTransactionByHash'' exampleHash,
         BodyRead,
         CompletionCall (ObjectPrototypeMember ''constructor'')
           [\<lparr>role = JStr ''user'', content = JStr ''hi''\<rparr>] systemPrompt]"
proof -
  have p: "xPayment (chatRequest b) = Some exampleHash" "exampleHash \<noteq> []" for b
    by (simp_all add: chatRequest_def exampleHash_def)
  show ?thesis
    unfolding POST_admitted(1) [OF exampleEnv_configured(3,4) p paidNode_accepts]
    by (simp add: getGoogleModel_string objectPrototypeMembers_def completionStage_def
        chatRequest_def messagesOrDefault_def echoCompletion_def)
qed

text \<open>
  C8, as stated, fails: an admitted request whose body has no \<^verbatim>\<open>messages\<close> reaches the
  completion capability with the empty sequence, and a role outside
  \<open>{user, assistant, system}\<close> is passed through.
\<close>

theorem unvalidated_messages_reach_completion:
  "snd (POST exampleEnv (paidNode (JStr exampleWallet) (JStr ''0x38D7EA4C68000'')) echoCompletion
        (chatRequest (JObj [])))
      = [RpcQuery ''eth_getTransactionReceipt'' exampleHash,
         RpcQuery ''eth_getTransactionByHash'' exampleHash,
         BodyRead,
         CompletionCall (GoogleModel ''gemini-2.5-flash'') [] systemPrompt]
   \<and> snd (POST exampleEnv (paidNode (JStr exampleWallet) (JStr ''0x38D7EA4C68000'')) echoCompletion
        (chatRequest (JObj [(''messages'', JArr [JObj [(''role'', JStr ''moderator''), (''content'', JStr ''hi'')]])])))
      = [RpcQuery ''eth_getTransactionReceipt'' exampleHash,
         RpcQuery ''eth_getTransactionByHash'' exampleHash,
         BodyRead,
         CompletionCall (GoogleModel ''gemini-2.5-flash'')
           [\<lparr>role = JStr ''moderator'', content = JStr ''hi''\<rparr>] systemPrompt]"
proof -
  have p: "xPayment (chatRequest b) = Some exampleHash" "exampleHash \<noteq> []" for b
    by (simp_all add: chatRequest_def exampleHash_def)
  show ?thesis
    unfolding POST_admitted(1) [OF exampleEnv_configured(3,4) p paidNode_accepts]
    by (simp add: getGoogleModel_def models_def objectPrototypeMembers_def completionStage_def
        chatRequest_def messagesOrDefault_def echoCompletion_def)
qed

text \<open>
  C8, amended. Whenever the completion capability is called, the request body parsed, its
  \<^verbatim>\<open>messages\<close> (the empty array when the property is undefined) is an array, and the
  sequence passed has one entry for each element of that array, in order, carrying the
  element's \<^verbatim>\<open>role\<close> and \<^verbatim>\<open>content\<close> as they are.
\<close>

theorem completion_receives_mapped_messages:
  assumes "CompletionCall m cms s \<in> set (snd (POST e node llm req))"
  shows "\<exists>b mv msgs. jsonBody req = BodyJson b
           \<and> getProp b ''messages'' = Inr mv \<and> messagesOrDefault mv = JArr msgs
           \<and> length cms = length msgs
           \<and> (\<forall>i < length msgs. getProp (msgs ! i) ''role'' = Inr (role (cms ! i))
                              \<and> getProp (msgs ! i) ''content'' = Inr (content (cms ! i)))"
proof -
  let ?p = "the (xPayment req)" and ?w = "the (SERVER_WALLET e)"
  have "CompletionCall m cms s \<notin> set (snd (verifyPayment node ?p ?w))"
    using verifyPayment_only_queries [of node ?p ?w] by auto
  with assms have "CompletionCall m cms s \<in> set (snd (completionStage llm req ?p))"
    by (auto simp: POST_events split: if_splits)
  from completionStage_call [OF this] obtain b mv msgs where
    b: "jsonBody req = BodyJson b" "getProp b ''messages'' = Inr mv"
       "messagesOrDefault mv = JArr msgs" and c: "coreMessages msgs = Inr cms"
    by blast
  from coreMessages_Inr [OF c] b show ?thesis by blast
qed

theorem completion_receives_mapped_messages_witness:
  "CompletionCall (GoogleModel ''gemini-2.0-flash'')
      [\<lparr>role = JStr ''user'', content = JStr ''hi''\<rparr>] systemPrompt
     \<in> set (snd (POST exampleEnv (paidNode (JStr exampleWallet) (JStr ''0x38D7EA4C68000''))
          echoCompletion
          (chatRequest (JObj [(''messages'', JArr [JObj [(''role'', JStr ''user''), (''content'', JStr ''hi'')]]),
                              (''model'', JStr ''gemini-2.0-flash'')]))))
   \<and> (\<exists>b mv msgs.
         jsonBody (chatRequest (JObj [(''messages'', JArr [JObj [(''role'', JStr ''user''), (''content'', JStr ''hi'')]]),
                              (''model'', JStr ''gemini-2.0-flash'')])) = BodyJson b
         \<and> getProp b ''messages'' = Inr mv \<and> messagesOrDefault mv = JArr msgs
         \<and> length msgs = 1)"
proof -
  let ?req = "chatRequest (JObj [(''messages'', JArr [JObj [(''role'', JStr ''user''), (''content'', JStr ''hi'')]]),
                              (''model'', JStr ''gemini-2.0-flash'')])"
  have p: "xPayment (chatRequest b) = Some exampleHash" "exampleHash \<noteq> []" for b
    by (simp_all add: chatRequest_def exampleHash_def)
  have call: "CompletionCall (GoogleModel ''gemini-2.0-flash'')
      [\<lparr>role = JStr ''user'', content = JStr ''hi''\<rparr>] systemPrompt
     \<in> set (snd (POST exampleEnv (paidNode (JStr exampleWallet) (JStr ''0x38D7EA4C68000''))
          echoCompletion ?req))"
    unfolding POST_admitted(1) [OF exampleEnv_configured(3,4) p paidNode_accepts]
    by (simp add: getGoogleModel_string completionStage_def
        chatRequest_def messagesOrDefault_def echoCompletion_def)
  from completion_receives_mapped_messages [OF call] call show ?thesis
    by fastforce
qed

text \<open>
  C1, as stated, fails for the \<^verbatim>\<open>value\<close> field: no field is type-checked, so a value that is
  a JSON number, or an array holding the hexadecimal string, is converted by \<^verbatim>\<open>BigInt\<close> and
  the payment is accepted.
\<close>

theorem wrongly_typed_value_accepted:
  "fst (verifyPayment
         (paidNode (JStr exampleWallet) (JNum 1000000000000000 ''1000000000000000''))
         exampleHash exampleWallet)
   \<and> fst (verifyPayment
         (paidNode (JStr exampleWallet) (JArr [JStr ''0x38D7EA4C68000'']))
         exampleHash exampleWallet)"
  by (simp add: verifyPayment_def verifyPaymentTry_def fetchJson_def paidNode_simps
      example_props checkTransaction_def lowerTo_def orElse_def parse_defs QUERY_PRICE_WEI_def)

text \<open>
  C1, amended. \<^verbatim>\<open>verifyPayment\<close> returns true exactly when its \<^verbatim>\<open>try\<close> block returned true,
  so every exception raised while verifying gives false. It returns true only if both
  replies arrived and parsed, both \<^verbatim>\<open>result\<close>s are truthy, \<^verbatim>\<open>status\<close> is the string
  \<^verbatim>\<open>0x1\<close>, \<^verbatim>\<open>to\<close> is a string equal to the recipient up to case, and \<^verbatim>\<open>BigInt\<close> converts
  \<^verbatim>\<open>value || '0'\<close> (of whatever type) to an integer that is at least the price; hence a
  transport error, malformed JSON, a null or absent result, an absent or different status,
  an absent or non-string recipient and an absent value all give false. When the verifier
  returns false and the recipient is configured, the handler answers 402, never 500.
\<close>

theorem verification_fails_closed:
  "(fst (verifyPayment node h w) = (fst (verifyPaymentTry node h w) = Inr True))
   \<and> (fst (verifyPayment node h w) \<longrightarrow>
        (\<exists>data receipt txData tx t v n.
           node ''eth_getTransactionReceipt'' h = Parsed data
           \<and> getProp data ''result'' = Inr receipt \<and> truthy receipt
           \<and> getProp receipt ''status'' = Inr (JStr ''0x1'')
           \<and> node ''eth_getTransactionByHash'' h = Parsed txData
           \<and> getProp txData ''result'' = Inr tx \<and> truthy tx
           \<and> getProp tx ''to'' = Inr (JStr t) \<and> toLowerCase t = toLowerCase w
           \<and> getProp tx ''value'' = Inr v
           \<and> BigInt (orElse v (JStr ''0'')) = Inr n \<and> QUERY_PRICE_WEI \<le> n))
   \<and> (SERVER_WALLET e = Some w \<and> w \<noteq> [] \<and> xPayment req = Some h \<and> h \<noteq> []
        \<and> \<not> fst (verifyPayment node h w) \<longrightarrow>
        fst (POST e node llm req) = rejectionResponse
        \<and> status (fst (POST e node llm req)) = 402)"
proof -
  have "fst (POST e node llm req) = rejectionResponse"
    if "SERVER_WALLET e = Some w" "w \<noteq> []" "xPayment req = Some h" "h \<noteq> []"
      "\<not> fst (verifyPayment node h w)"
    using that by (simp add: POST_response missing_def)
  then show ?thesis
    using verifyPayment_unfold [of node h w] verifyPayment_True_iff [of node h w]
    by (auto simp: status_responses)
qed

theorem verification_fails_closed_witness:
  "fst (verifyPayment (paidNode (JStr exampleWallet) (JStr ''0x38D7EA4C68000''))
         exampleHash exampleWallet)
   \<and> (\<exists>n. BigInt (orElse (JStr ''0x38D7EA4C68000'') (JStr ''0'')) = Inr n \<and> QUERY_PRICE_WEI \<le> n)
   \<and> \<not> fst (verifyPayment (nodeOf TransportFailure TransportFailure) exampleHash exampleWallet)
   \<and> \<not> fst (verifyPayment (nodeOf MalformedJson MalformedJson) exampleHash exampleWallet)
   \<and> \<not> fst (verifyPayment (nodeOf (Parsed JNull) (Parsed JNull)) exampleHash exampleWallet)
   \<and> \<not> fst (verifyPayment (nodeOf (Parsed (rpcResult JNull)) (Parsed (rpcResult JNull)))
             exampleHash exampleWallet)
   \<and> \<not> fst (verifyPayment (paidNode (JNum 7 ''7'') (JStr ''0x38D7EA4C68000''))
             exampleHash exampleWallet)
   \<and> \<not> fst (verifyPayment (paidNode (JStr exampleWallet) (JStr ''1e18''))
             exampleHash exampleWallet)
   \<and> status (fst (POST exampleEnv (nodeOf TransportFailure TransportFailure) echoCompletion
         (chatRequest (JObj [])))) = 402"
proof -
  have eq: "fst (verifyPayment node h w) = (fst (verifyPaymentTry node h w) = Inr True)" for node h w
    using verification_fails_closed [of node h w] by blast
  have only_if: "\<exists>v n. getProp (txOf (JStr exampleWallet) (JStr ''0x38D7EA4C68000'')) ''value'' = Inr v
      \<and> BigInt (orElse v (JStr ''0'')) = Inr n \<and> QUERY_PRICE_WEI \<le> n"
    if "fst (verifyPayment (paidNode (JStr exampleWallet) (JStr ''0x38D7EA4C68000''))
         exampleHash exampleWallet)"
    using that
      verification_fails_closed [of "paidNode (JStr exampleWallet) (JStr ''0x38D7EA4C68000'')"
        exampleHash exampleWallet]
    by (auto simp: paidNode_simps example_props)
  have rej: "status (fst (POST exampleEnv node echoCompletion (chatRequest b))) = 402"
    if "\<not> fst (verifyPayment node exampleHash exampleWallet)" for node b
    using that exampleEnv_configured(3,4)
      verification_fails_closed [of node exampleHash exampleWallet exampleEnv "chatRequest b"
        echoCompletion]
    by (simp add: chatRequest_def exampleHash_def status_responses)
  have acc: "fst (verifyPayment (paidNode (JStr exampleWallet) (JStr ''0x38D7EA4C68000''))
         exampleHash exampleWallet)"
    unfolding eq
    by (simp add: verifyPaymentTry_def fetchJson_def paidNode_simps
        example_props checkTransaction_def lowerTo_def orElse_def parse_defs QUERY_PRICE_WEI_def)
  have f1: "\<not> fst (verifyPayment (nodeOf TransportFailure TransportFailure) exampleHash exampleWallet)"
    unfolding eq by (simp add: verifyPaymentTry_def fetchJson_def nodeOf_def)
  have f2: "\<not> fst (verifyPayment (nodeOf MalformedJson MalformedJson) exampleHash exampleWallet)"
    unfolding eq by (simp add: verifyPaymentTry_def fetchJson_def nodeOf_def)
  have f3: "\<not> fst (verifyPayment (nodeOf (Parsed JNull) (Parsed JNull)) exampleHash exampleWallet)"
    unfolding eq by (simp add: verifyPaymentTry_def fetchJson_def nodeOf_def)
  have f4: "\<not> fst (verifyPayment (nodeOf (Parsed (rpcResult JNull)) (Parsed (rpcResult JNull)))
             exampleHash exampleWallet)"
    unfolding eq by (simp add: verifyPaymentTry_def fetchJson_def nodeOf_def example_props)
  have f5: "\<not> fst (verifyPayment (paidNode (JNum 7 ''7'') (JStr ''0x38D7EA4C68000''))
             exampleHash exampleWallet)"
    unfolding eq
    by (simp add: verifyPaymentTry_def fetchJson_def paidNode_simps
        example_props checkTransaction_def lowerTo_def)
  have f6: "\<not> fst (verifyPayment (paidNode (JStr exampleWallet) (JStr ''1e18''))
             exampleHash exampleWallet)"
    unfolding eq
    by (simp add: verifyPaymentTry_def fetchJson_def paidNode_simps
        example_props checkTransaction_def lowerTo_def orElse_def parse_defs)
  from only_if [OF acc] have "\<exists>n. BigInt (orElse (JStr ''0x38D7EA4C68000'') (JStr ''0'')) = Inr n
      \<and> QUERY_PRICE_WEI \<le> n"
    by (simp add: example_props)
  with acc f1 f2 f3 f4 f5 f6 rej [OF f1] show ?thesis by blast
qed

end
